theory Spec2Isabelle
  imports Main
begin

section \<open>The registration shim of the pdp package (src/pdp-init.c)\<close>

text \<open>
  The file declares one external routine, builds a static table that describes it to the
  host, and defines the hook the host calls when it loads the shared object:
  \<^verbatim>\<open>
  extern SEXP PartialGBM(SEXP, SEXP, SEXP, SEXP, SEXP, SEXP, SEXP, SEXP, SEXP, SEXP);

  static const R_CallMethodDef CallEntries[] = {
    {"PartialGBM", (DL_FUNC) &PartialGBM, 10},
    {NULL, NULL, 0}
  };

  void R_init_pdp(DllInfo *dll)
  {
    R_registerRoutines(dll, NULL, CallEntries, NULL, NULL);
    R_useDynamicSymbols(dll, FALSE);
  }
  \<close>
\<close>

subsection \<open>Declarations and the table\<close>

text \<open>The only C type that occurs in the declaration is \<open>SEXP\<close>.\<close>

datatype ctype = SEXP

text \<open>An \<open>extern\<close> function declaration: its name, result type and parameter types.\<close>

record fun_decl =
  decl_name :: string
  decl_result :: ctype
  decl_params :: "ctype list"

definition PartialGBM :: fun_decl where
  "PartialGBM =
     \<lparr>decl_name = ''PartialGBM'', decl_result = SEXP,
      decl_params = [SEXP, SEXP, SEXP, SEXP, SEXP, SEXP, SEXP, SEXP, SEXP, SEXP]\<rparr>"

text \<open>
  A function pointer \<open>DL_FUNC\<close> is the address of an external symbol; the address of a
  declared function is identified by the symbol it names. \<open>NULL\<close> is \<open>None\<close>.
\<close>

datatype DL_FUNC = FunAddr string

definition address_of :: "fun_decl \<Rightarrow> DL_FUNC" where
  "address_of d = FunAddr (decl_name d)"

text \<open>
  One routine descriptor \<open>R_CallMethodDef\<close>: the triple \<open>{name, fun, numArgs}\<close> of the
  initialiser (\<open>fun\<close> is written \<open>func\<close>, the former being reserved).
\<close>

record R_CallMethodDef =
  name :: "string option"
  func :: "DL_FUNC option"
  numArgs :: int

type_synonym routine_table = "R_CallMethodDef list"

definition CallEntries :: routine_table where
  "CallEntries =
     [\<lparr>name = Some ''PartialGBM'', func = Some (address_of PartialGBM), numArgs = 10\<rparr>,
      \<lparr>name = None, func = None, numArgs = 0\<rparr>]"

text \<open>
  The array carries no length: it ends at the first descriptor whose name is \<open>NULL\<close>.
  \<open>routines\<close> are the descriptors in front of that marker.
\<close>

definition is_sentinel :: "R_CallMethodDef \<Rightarrow> bool" where
  "is_sentinel e = (name e = None)"

definition routines :: "routine_table \<Rightarrow> R_CallMethodDef list" where
  "routines t = takeWhile (\<lambda>e. \<not> is_sentinel e) t"

subsection \<open>The host interface and the loader hook\<close>

text \<open>The opaque handle \<open>DllInfo *\<close> of a loaded module.\<close>

type_synonym DllInfo = nat

text \<open>The four native interfaces that \<open>R_registerRoutines\<close> has a slot for, in slot order.\<close>

datatype iface = DotC | DotCall | DotFortran | DotExternal

text \<open>
  The hook calls two routines of the host. They are taken as parameters, over any type
  \<open>'h\<close> of host states: each maps the host state to its result and the new host state.
  \<open>host_lookup\<close> is the host's lookup of a symbol by name, which the shim never calls
  itself but which the host performs on the module afterwards.
\<close>

record 'h host_api =
  R_registerRoutines :: "DllInfo \<Rightarrow> routine_table option \<Rightarrow> routine_table option \<Rightarrow>
     routine_table option \<Rightarrow> routine_table option \<Rightarrow> 'h \<Rightarrow> int \<times> 'h"
  R_useDynamicSymbols :: "DllInfo \<Rightarrow> bool \<Rightarrow> 'h \<Rightarrow> bool \<times> 'h"
  host_lookup :: "iface \<Rightarrow> DllInfo \<Rightarrow> string \<Rightarrow> 'h \<Rightarrow> DL_FUNC option \<times> 'h"

text \<open>
  The state the module runs in: the static array object \<open>CallEntries\<close> in the module's
  data, and the state of the host.
\<close>

record 'h world =
  CallEntries_obj :: routine_table
  host_st :: 'h

text \<open>Loading the module places the initialiser in the module's data.\<close>

definition module_load :: "'h \<Rightarrow> 'h world" where
  "module_load h = \<lparr>CallEntries_obj = CallEntries, host_st = h\<rparr>"

text \<open>
  The hook: two calls in sequence, both results discarded, nothing returned (\<open>void\<close>).
\<close>

definition R_init_pdp :: "'h host_api \<Rightarrow> DllInfo \<Rightarrow> 'h world \<Rightarrow> 'h world" where
  "R_init_pdp H dll w =
     (let h1 = snd (R_registerRoutines H dll None (Some (CallEntries_obj w)) None None (host_st w));
          h2 = snd (R_useDynamicSymbols H dll False h1)
      in w\<lparr>host_st := h2\<rparr>)"

text \<open>
  What can happen to a loaded module: the host invokes the hook, or the host looks a
  symbol up.
\<close>

datatype module_op = Invoke_hook DllInfo | Lookup iface DllInfo string

fun run_op :: "'h host_api \<Rightarrow> module_op \<Rightarrow> 'h world \<Rightarrow> 'h world" where
  "run_op H (Invoke_hook dll) w = R_init_pdp H dll w"
| "run_op H (Lookup i dll s) w = w\<lparr>host_st := snd (host_lookup H i dll s (host_st w))\<rparr>"

fun run :: "'h host_api \<Rightarrow> module_op list \<Rightarrow> 'h world \<Rightarrow> 'h world" where
  "run H [] w = w"
| "run H (x # xs) w = run H xs (run_op H x w)"

definition resolve :: "'h host_api \<Rightarrow> iface \<Rightarrow> DllInfo \<Rightarrow> string \<Rightarrow> 'h world \<Rightarrow> DL_FUNC option" where
  "resolve H i dll s w = fst (host_lookup H i dll s (host_st w))"

subsection \<open>A host that records the calls it receives\<close>

datatype host_call =
    Call_registerRoutines DllInfo "routine_table option" "routine_table option"
      "routine_table option" "routine_table option"
  | Call_useDynamicSymbols DllInfo bool
  | Call_lookup iface DllInfo string

definition tracing_host :: "host_call list host_api" where
  "tracing_host =
     \<lparr>R_registerRoutines = (\<lambda>dll c cl f e tr. (1, tr @ [Call_registerRoutines dll c cl f e])),
      R_useDynamicSymbols = (\<lambda>dll v tr. (True, tr @ [Call_useDynamicSymbols dll v])),
      host_lookup = (\<lambda>i dll s tr. (None, tr @ [Call_lookup i dll s]))\<rparr>"

subsection \<open>The host's dispatch mechanism\<close>

text \<open>
  Modelled from the spec: the host runtime's \<open>R_registerRoutines\<close>, \<open>R_useDynamicSymbols\<close>
  and its lookup of a symbol by name. They are declared in \<open>R_ext/Rdynload.h\<close>, which the
  source includes, and defined in the host, not in this repository. The spec says that
  registration associates the handle with the table, that the host dispatches through the
  table, and that a fallback mechanism would otherwise search for callable symbols
  outside the table unless it is disabled.

  The spec speaks of one table per handle; the registration call has one slot for each
  of the four interfaces, so the state keeps, for each handle and interface, the table
  installed there (if any). It also keeps, for each handle, whether the fallback search
  is enabled, and what the fallback search would find.
\<close>

record host_state =
  registered :: "DllInfo \<Rightarrow> iface \<Rightarrow> routine_table option"
  useDynamic :: "DllInfo \<Rightarrow> bool"
  dyn_symbols :: "DllInfo \<Rightarrow> string \<Rightarrow> DL_FUNC option"

text \<open>
  Modelled from the spec: installing one slot of a registration call. A \<open>NULL\<close> slot
  installs nothing.
\<close>

definition install :: "DllInfo \<Rightarrow> iface \<Rightarrow> routine_table option \<Rightarrow> host_state \<Rightarrow> host_state" where
  "install dll i t h =
     (case t of
        None \<Rightarrow> h
      | Some tb \<Rightarrow> h\<lparr>registered := (registered h)(dll := (registered h dll)(i := Some tb))\<rparr>)"

text \<open>
  Modelled from the spec: the lookup searches the table installed for the handle and
  interface and, when the name is not there, the fallback if it is enabled.
\<close>

definition lookup_symbol :: "iface \<Rightarrow> DllInfo \<Rightarrow> string \<Rightarrow> host_state \<Rightarrow> DL_FUNC option" where
  "lookup_symbol i dll s h =
     (let fallback = (if useDynamic h dll then dyn_symbols h dll s else None) in
      case registered h dll i of
        None \<Rightarrow> fallback
      | Some tb \<Rightarrow>
          (case find (\<lambda>e. name e = Some s) (routines tb) of
             None \<Rightarrow> fallback
           | Some e \<Rightarrow> func e))"

text \<open>
  Modelled from the spec: the host's side of the interface. Registration reports
  success; switching the fallback returns the previous setting; a lookup changes nothing.
\<close>

definition spec_host :: "host_state host_api" where
  "spec_host =
     \<lparr>R_registerRoutines = (\<lambda>dll c cl f e h.
         (1, install dll DotExternal e (install dll DotFortran f
               (install dll DotCall cl (install dll DotC c h))))),
      R_useDynamicSymbols = (\<lambda>dll v h. (useDynamic h dll, h\<lparr>useDynamic := (useDynamic h)(dll := v)\<rparr>)),
      host_lookup = (\<lambda>i dll s h. (lookup_symbol i dll s h, h))\<rparr>"

text \<open>
  Modelled from the spec: a host in which nothing has been registered yet and the
  fallback search is enabled for every handle; \<open>dyn\<close> is what that search finds.
\<close>

definition fresh_host :: "(DllInfo \<Rightarrow> string \<Rightarrow> DL_FUNC option) \<Rightarrow> host_state" where
  "fresh_host dyn = \<lparr>registered = (\<lambda>d i. None), useDynamic = (\<lambda>d. True), dyn_symbols = dyn\<rparr>"

text \<open>
  The condition that the hook establishes for a handle and that every later operation of
  the module keeps: the module's array is as initialised, it is the table installed for
  the \<open>.Call\<close> interface of the handle, and the fallback search is disabled.
\<close>

definition installed :: "DllInfo \<Rightarrow> host_state world \<Rightarrow> bool" where
  "installed dll w =
     (CallEntries_obj w = CallEntries \<and>
      registered (host_st w) dll DotCall = Some CallEntries \<and>
      useDynamic (host_st w) dll = False)"

section \<open>Properties\<close>

subsection \<open>Auxiliary facts\<close>

lemma routines_CallEntries:
  "routines CallEntries =
     [\<lparr>name = Some ''PartialGBM'', func = Some (FunAddr ''PartialGBM''), numArgs = 10\<rparr>]"
  by (simp add: routines_def CallEntries_def is_sentinel_def address_of_def PartialGBM_def)

lemma R_init_pdp_obj: "CallEntries_obj (R_init_pdp H dll w) = CallEntries_obj w"
  by (simp add: R_init_pdp_def Let_def)

lemma run_op_obj: "CallEntries_obj (run_op H x w) = CallEntries_obj w"
  by (cases x) (simp_all add: R_init_pdp_obj)

lemma run_obj: "CallEntries_obj (run H xs w) = CallEntries_obj w"
  by (induction xs arbitrary: w) (simp_all add: run_op_obj)

lemma installed_init:
  "CallEntries_obj w = CallEntries \<Longrightarrow> installed dll (R_init_pdp spec_host dll w)"
  by (simp add: installed_def R_init_pdp_def spec_host_def install_def Let_def)

lemma installed_run_op: "installed dll w \<Longrightarrow> installed dll (run_op spec_host x w)"
proof (cases x)
  case (Invoke_hook d)
  assume "installed dll w"
  then show ?thesis
    unfolding Invoke_hook
    by (simp add: installed_def R_init_pdp_def spec_host_def install_def Let_def)
next
  case (Lookup i d s)
  assume "installed dll w"
  then show ?thesis
    unfolding Lookup by (simp add: installed_def spec_host_def)
qed

lemma installed_run: "installed dll w \<Longrightarrow> installed dll (run spec_host xs w)"
  by (induction xs arbitrary: w) (simp_all add: installed_run_op)

lemma installed_found:
  assumes "installed dll w"
  shows "resolve spec_host DotCall dll ''PartialGBM'' w = Some (FunAddr ''PartialGBM'')"
  using assms
  by (simp add: installed_def resolve_def spec_host_def lookup_symbol_def routines_CallEntries)

lemma installed_missing:
  assumes "installed dll w" and "Some s \<notin> set (map name (routines CallEntries))"
  shows "resolve spec_host DotCall dll s w = None"
  using assms
  by (simp add: installed_def resolve_def spec_host_def lookup_symbol_def routines_CallEntries)

subsection \<open>The table\<close>

text \<open>
  C1. The exported routine surface is exactly one entry: the table registers the single
  name \<open>PartialGBM\<close> with arity 10, and no other routine name.
\<close>

theorem CallEntries_surface:
  "map (\<lambda>e. (name e, numArgs e)) (routines CallEntries) = [(Some ''PartialGBM'', 10)]"
  by (simp add: routines_CallEntries)

text \<open>
  C2. The arity registered for the routine equals the number of parameters of the
  declaration of \<open>PartialGBM\<close>, and the registered pointer is the address of that
  declared function.
\<close>

theorem registered_arity_is_declared_arity:
  "map numArgs (routines CallEntries) = [int (length (decl_params PartialGBM))] \<and>
   map func (routines CallEntries) = [Some (address_of PartialGBM)]"
  by (simp add: routines_CallEntries PartialGBM_def address_of_def)

text \<open>
  C6. The table is a sequence of routine descriptors followed by the sentinel, no
  descriptor in front of the sentinel is itself a sentinel, and the names in front of
  the sentinel are pairwise different.
\<close>

theorem CallEntries_terminated_distinct:
  "CallEntries = routines CallEntries @ [\<lparr>name = None, func = None, numArgs = 0\<rparr>] \<and>
   is_sentinel (last CallEntries) \<and>
   None \<notin> set (map name (routines CallEntries)) \<and>
   distinct (map name (routines CallEntries))"
  by (simp add: routines_CallEntries)
     (simp add: CallEntries_def is_sentinel_def address_of_def PartialGBM_def)

subsection \<open>The loader hook against any host\<close>

text \<open>
  C3. Given the handle, the hook performs exactly two side effects on the host, in this
  order: it hands the table to the host's registration routine (with no table for the
  other three interfaces), then it switches the host's fallback symbol search off for
  the handle. Nothing else changes: the module's data is as it was loaded.
\<close>

theorem R_init_pdp_two_effects_in_order:
  "R_init_pdp tracing_host dll (module_load tr) =
     module_load (tr @ [Call_registerRoutines dll None (Some CallEntries) None None,
                        Call_useDynamicSymbols dll False])"
  by (simp add: R_init_pdp_def tracing_host_def module_load_def Let_def)

text \<open>
  C5. The table is placed in the module's data when the module is loaded and no operation
  of the module changes it afterwards: whatever the host's routines do to the host state,
  after any sequence of hook invocations and lookups the array still holds the
  initialiser.
\<close>

theorem CallEntries_never_mutated:
  "CallEntries_obj (run H ops (module_load h)) = CallEntries"
  by (simp add: run_obj module_load_def)

text \<open>
  C9. The hook returns nothing, so its outcome carries no failure information: whatever
  status the host's registration routine returns, and whatever previous setting the
  switch of the fallback search returns, the hook's outcome is the same, for every
  handle.
\<close>

theorem R_init_pdp_ignores_status:
  "R_init_pdp
     (H\<lparr>R_registerRoutines := (\<lambda>d c cl f e h. (status d h, snd (R_registerRoutines H d c cl f e h))),
        R_useDynamicSymbols := (\<lambda>d v h. (old d h, snd (R_useDynamicSymbols H d v h)))\<rparr>)
     dll w =
   R_init_pdp H dll w"
  by (simp add: R_init_pdp_def)

subsection \<open>The loader hook against the host's dispatch mechanism\<close>

text \<open>
  C4. After the hook has run, and after any further hook invocations and lookups, looking
  up through the \<open>.Call\<close> dispatch of the handle a name that is not in the table fails:
  the result is \<open>NULL\<close> whatever the fallback search would have found.
\<close>

theorem unregistered_lookup_fails:
  assumes "Some s \<notin> set (map name (routines CallEntries))"
  shows "resolve spec_host DotCall dll s
           (run spec_host ops (R_init_pdp spec_host dll (module_load h))) = None"
proof -
  have "installed dll (R_init_pdp spec_host dll (module_load h))"
    by (rule installed_init) (simp add: module_load_def)
  then have "installed dll (run spec_host ops (R_init_pdp spec_host dll (module_load h)))"
    by (rule installed_run)
  then show ?thesis using assms by (rule installed_missing)
qed

theorem unregistered_lookup_fails_witness:
  "Some ''foo'' \<notin> set (map name (routines CallEntries)) \<and>
   resolve spec_host DotCall 0 ''foo''
     (module_load (fresh_host (\<lambda>d s. Some (FunAddr s)))) = Some (FunAddr ''foo'') \<and>
   resolve spec_host DotCall 0 ''foo''
     (run spec_host [Lookup DotCall 0 ''foo'', Invoke_hook 0]
        (R_init_pdp spec_host 0 (module_load (fresh_host (\<lambda>d s. Some (FunAddr s)))))) = None"
proof -
  have n: "Some ''foo'' \<notin> set (map name (routines CallEntries))"
    by (simp add: routines_CallEntries)
  have b: "resolve spec_host DotCall 0 ''foo''
     (module_load (fresh_host (\<lambda>d s. Some (FunAddr s)))) = Some (FunAddr ''foo'')"
    by (simp add: resolve_def spec_host_def lookup_symbol_def module_load_def fresh_host_def)
  show ?thesis
    using n b unregistered_lookup_fails [OF n, of 0 "[Lookup DotCall 0 ''foo'', Invoke_hook 0]"
      "fresh_host (\<lambda>d s. Some (FunAddr s))"]
    by simp
qed

text \<open>
  C7. Invoking the hook a second time on a handle it has already initialised is a no-op:
  the table in the module's data, the tables installed in the host and the setting of the
  fallback search are exactly as after the first invocation.
\<close>

theorem R_init_pdp_twice:
  "R_init_pdp spec_host dll (R_init_pdp spec_host dll w) = R_init_pdp spec_host dll w"
  by (simp add: R_init_pdp_def spec_host_def install_def Let_def)

text \<open>
  C8. After the module is loaded, every lookup of \<open>PartialGBM\<close> through the \<open>.Call\<close>
  dispatch of the handle resolves to the address of \<open>PartialGBM\<close>, whatever lookups and
  hook invocations came before it; so any two lookups give equal pointers.
\<close>

theorem PartialGBM_lookup_deterministic:
  "resolve spec_host DotCall dll ''PartialGBM''
     (run spec_host ops (R_init_pdp spec_host dll (module_load h))) =
   Some (address_of PartialGBM)"
proof -
  have "installed dll (R_init_pdp spec_host dll (module_load h))"
    by (rule installed_init) (simp add: module_load_def)
  then have "installed dll (run spec_host ops (R_init_pdp spec_host dll (module_load h)))"
    by (rule installed_run)
  then show ?thesis
    by (simp add: installed_found address_of_def PartialGBM_def)
qed

text \<open>
  C10. The hook registers routines for the \<open>.Call\<close> interface only: its registration
  call passes \<open>NULL\<close> in the \<open>.C\<close>, \<open>.Fortran\<close> and \<open>.External\<close> slots, and after
  loading into a host where nothing was registered, no name resolves through any of
  those three interfaces.
\<close>

theorem only_Call_interface_registered:
  "host_st (R_init_pdp tracing_host dll (module_load [])) =
     [Call_registerRoutines dll None (Some CallEntries) None None,
      Call_useDynamicSymbols dll False] \<and>
   resolve spec_host DotC dll s
     (R_init_pdp spec_host dll (module_load (fresh_host dyn))) = None \<and>
   resolve spec_host DotFortran dll s
     (R_init_pdp spec_host dll (module_load (fresh_host dyn))) = None \<and>
   resolve spec_host DotExternal dll s
     (R_init_pdp spec_host dll (module_load (fresh_host dyn))) = None"
  by (simp add: R_init_pdp_def tracing_host_def spec_host_def module_load_def fresh_host_def
      install_def resolve_def lookup_symbol_def Let_def)

end
